theory Spec2Isabelle
  imports Main
begin

section \<open>JavaScript values read by the code\<close>

text \<open>
  The code tests optional values with JavaScript truthiness (\<open>!x\<close>, \<open>x || y\<close>,
  \<open>x ? a : b\<close>). An absent property (\<open>undefined\<close>) is \<open>None\<close>; the empty string and the
  number 0 are falsy as well.
\<close>

definition truthyStr :: "string option \<Rightarrow> bool" where
  "truthyStr v = (case v of None \<Rightarrow> False | Some s \<Rightarrow> s \<noteq> [])"

definition truthyNum :: "int option \<Rightarrow> bool" where
  "truthyNum v = (case v of None \<Rightarrow> False | Some n \<Rightarrow> n \<noteq> 0)"

definition orStr :: "string option \<Rightarrow> string option \<Rightarrow> string option" where
  "orStr a b = (if truthyStr a then a else b)"

definition orNum :: "int option \<Rightarrow> int option \<Rightarrow> int option" where
  "orNum a b = (if truthyNum a then a else b)"

text \<open>
  \<open>parseInt(string)\<close> without a radix, on ASCII input: leading white space is skipped, one
  sign is read, a \<open>0x\<close>/\<open>0X\<close> prefix selects radix 16, and the longest prefix of digits
  of the radix is the value; no digit at all gives \<open>NaN\<close>, here \<open>None\<close>. Numbers are
  integers of unbounded size (the rounding of doubles above \<open>2^53\<close> is not modelled).
\<close>

definition isWhiteSpace :: "char \<Rightarrow> bool" where
  "isWhiteSpace c = (c \<in> set [CHR 0x09, CHR 0x0A, CHR 0x0B, CHR 0x0C, CHR 0x0D, CHR 0x20])"

definition digitValue :: "char \<Rightarrow> nat option" where
  "digitValue c =
     (let n = (of_char c :: nat) in
      if 48 \<le> n \<and> n \<le> 57 then Some (n - 48)
      else if 97 \<le> n \<and> n \<le> 122 then Some (n - 87)
      else if 65 \<le> n \<and> n \<le> 90 then Some (n - 55)
      else None)"

definition isRadixDigit :: "nat \<Rightarrow> char \<Rightarrow> bool" where
  "isRadixDigit R c = (case digitValue c of None \<Rightarrow> False | Some d \<Rightarrow> d < R)"

definition digitsValue :: "nat \<Rightarrow> string \<Rightarrow> nat" where
  "digitsValue R Z = foldl (\<lambda>acc c. acc * R + (case digitValue c of None \<Rightarrow> 0 | Some d \<Rightarrow> d)) 0 Z"

definition parseInt :: "string \<Rightarrow> int option" where
  "parseInt str =
     (let S = dropWhile isWhiteSpace str;
          sign = (case S of c # _ \<Rightarrow> if c = CHR ''-'' then - 1 else 1 | [] \<Rightarrow> (1::int));
          S1 = (case S of c # cs \<Rightarrow> if c = CHR ''-'' \<or> c = CHR ''+'' then cs else S | [] \<Rightarrow> S);
          hex = (case S1 of a # b # _ \<Rightarrow> a = CHR ''0'' \<and> (b = CHR ''x'' \<or> b = CHR ''X'') | _ \<Rightarrow> False);
          R = (if hex then 16 else 10);
          S2 = (if hex then drop 2 S1 else S1);
          Z = takeWhile (isRadixDigit R) S2
      in if Z = [] then None else Some (sign * int (digitsValue R Z)))"

text \<open>
  A value thrown by the remote client: an \<open>Error\<close> instance with its \<open>message\<close>, or any
  other value with its \<open>String(error)\<close> rendering.
\<close>

datatype thrown = ErrorInstance string | NonError string

definition thrownMessage :: "thrown \<Rightarrow> string" where
  "thrownMessage error = (case error of ErrorInstance m \<Rightarrow> m | NonError str \<Rightarrow> str)"

section \<open>auth.ts: the token lifecycle\<close>

definition SPOTIFY_SCOPES :: "string list" where
  "SPOTIFY_SCOPES =
     [''user-read-playback-state'',
      ''user-modify-playback-state'',
      ''user-read-currently-playing'',
      ''playlist-read-private'',
      ''playlist-read-collaborative'',
      ''user-library-read'']"

fun joinWith :: "string \<Rightarrow> string list \<Rightarrow> string" where
  "joinWith sep [] = []"
| "joinWith sep [x] = x"
| "joinWith sep (x # y # ys) = x @ sep @ joinWith sep (y # ys)"

record SpotifyConfig =
  clientId :: string
  clientSecret :: string
  redirectUri :: string
  configRefreshToken :: "string option"

text \<open>
  \<open>TokenResponse\<close> is also the shape of the body the remote answers with; \<open>refresh_token\<close>
  and \<open>scope\<close> may be absent from it.
\<close>

record TokenResponse =
  access_token :: string
  token_type :: string
  expires_in :: int
  refresh_token :: "string option"
  scope :: "string option"

text \<open>
  \<open>refreshToken\<close> has type \<open>string\<close> in the source, but it is stored through a non-null
  assertion (\<open>refresh_token!\<close>) from an optional field, so it can be \<open>undefined\<close> at run
  time. \<open>expiresAt\<close> is in milliseconds.
\<close>

record TokenMetadata =
  accessToken :: string
  refreshToken :: "string option"
  expiresAt :: int

text \<open>
  What a call leaves behind, in order: the entry into a method of \<open>SpotifyAuth\<close>, a request
  sent to the remote, an invocation of the wrapped operation, a \<open>sleep\<close> with its argument
  (\<open>None\<close> is \<open>NaN\<close>).
\<close>

datatype event =
    EnsureValidToken
  | RefreshAccessToken
  | AuthorizationCodeGrant
  | RemoteRefresh
  | Invoke
  | Sleep "int option"

text \<open>
  The state of one \<open>SpotifyAuth\<close>: its \<open>tokenMetadata\<close>, the two tokens set in the
  \<open>SpotifyWebApi\<close> client it owns, and the events so far.
\<close>

record auth_state =
  tokenMetadata :: "TokenMetadata option"
  apiAccessToken :: "string option"
  apiRefreshToken :: "string option"
  trace :: "event list"

text \<open>
  What the code reads of a value the wrapped operation rejects with:
  \<open>error?.statusCode\<close>, \<open>error?.body?.error?.status\<close>, \<open>error?.body?.error?.message\<close>,
  \<open>error?.message\<close> and \<open>error?.headers?.['retry-after']\<close>.
\<close>

record api_failure =
  statusCode :: "int option"
  bodyErrorStatus :: "int option"
  bodyErrorMessage :: "string option"
  message :: "string option"
  retryAfter :: "string option"

text \<open>
  The world outside: the outcome of the \<open>i\<close>-th invocation of the wrapped operation, of the
  \<open>i\<close>-th refresh request, of the \<open>i\<close>-th authorization-code grant (counted from 0), and
  \<open>Date.now()\<close> as a function of the number of events that have happened. Two reads of the
  clock are always separated by an event, so any sequence of clock values is covered.
  One call runs at a time: nothing else touches the state of the client while a call is
  in progress.
\<close>

record 'a env =
  operation :: "nat \<Rightarrow> api_failure + 'a"
  remoteRefresh :: "nat \<Rightarrow> thrown + TokenResponse"
  authorizationCodeGrant :: "nat \<Rightarrow> string \<Rightarrow> thrown + TokenResponse"
  dateNow :: "nat \<Rightarrow> int"

definition emit :: "event \<Rightarrow> auth_state \<Rightarrow> auth_state" where
  "emit ev s = s\<lparr>trace := trace s @ [ev]\<rparr>"

definition newSpotifyAuth :: "SpotifyConfig \<Rightarrow> auth_state" where
  "newSpotifyAuth config =
     (if truthyStr (configRefreshToken config)
      then \<lparr>tokenMetadata = Some \<lparr>accessToken = [], refreshToken = configRefreshToken config,
                                   expiresAt = 0\<rparr>,
            apiAccessToken = None,
            apiRefreshToken = configRefreshToken config,
            trace = []\<rparr>
      else \<lparr>tokenMetadata = None, apiAccessToken = None, apiRefreshToken = None, trace = []\<rparr>)"

definition exchangeCodeForToken ::
  "'a env \<Rightarrow> string \<Rightarrow> auth_state \<Rightarrow> (string + TokenResponse) \<times> auth_state" where
  "exchangeCodeForToken env code s =
     (let s1 = emit AuthorizationCodeGrant s in
      case authorizationCodeGrant env (count_list (trace s) AuthorizationCodeGrant) code of
        Inl error \<Rightarrow>
          (Inl (''Failed to exchange authorization code for token: '' @ thrownMessage error), s1)
      | Inr body \<Rightarrow>
          (let tokenResponse =
                 \<lparr>access_token = access_token body,
                  token_type = token_type body,
                  expires_in = expires_in body,
                  refresh_token = refresh_token body,
                  scope = scope body\<rparr>
           in (Inr tokenResponse,
               s1\<lparr>tokenMetadata :=
                     Some \<lparr>accessToken = access_token tokenResponse,
                           refreshToken = refresh_token tokenResponse,
                           expiresAt = dateNow env (length (trace s1))
                                       + expires_in tokenResponse * 1000\<rparr>,
                   apiAccessToken := Some (access_token tokenResponse),
                   apiRefreshToken := refresh_token tokenResponse\<rparr>)))"

definition noRefreshTokenMessage :: string where
  "noRefreshTokenMessage = ''No refresh token available. Please authorize the application first.''"

definition noAccessTokenMessage :: string where
  "noAccessTokenMessage = ''No access token available. Please authorize the application first.''"

definition refreshAccessToken ::
  "'a env \<Rightarrow> auth_state \<Rightarrow> (string + TokenResponse) \<times> auth_state" where
  "refreshAccessToken env s0 =
     (let s = emit RefreshAccessToken s0 in
      case tokenMetadata s of
        None \<Rightarrow> (Inl noRefreshTokenMessage, s)
      | Some held \<Rightarrow>
          if \<not> truthyStr (refreshToken held) then (Inl noRefreshTokenMessage, s)
          else
            (let s1 = emit RemoteRefresh s in
             case remoteRefresh env (count_list (trace s) RemoteRefresh) of
               Inl error \<Rightarrow>
                 (Inl (''Failed to refresh access token: '' @ thrownMessage error), s1)
             | Inr body \<Rightarrow>
                 (let tokenResponse =
                        \<lparr>access_token = access_token body,
                         token_type = token_type body,
                         expires_in = expires_in body,
                         refresh_token = orStr (refresh_token body) (refreshToken held),
                         scope = orStr (scope body) (Some (joinWith '' '' SPOTIFY_SCOPES))\<rparr>;
                      updated =
                        \<lparr>accessToken = access_token tokenResponse,
                         refreshToken = refresh_token tokenResponse,
                         expiresAt = dateNow env (length (trace s1))
                                     + expires_in tokenResponse * 1000\<rparr>;
                      s2 = s1\<lparr>tokenMetadata := Some updated,
                              apiAccessToken := Some (access_token tokenResponse)\<rparr>;
                      s3 = (if refresh_token tokenResponse \<noteq> refreshToken updated
                            then s2\<lparr>apiRefreshToken := refresh_token tokenResponse\<rparr>
                            else s2)
                  in (Inr tokenResponse, s3))))"

definition isTokenExpired :: "int \<Rightarrow> auth_state \<Rightarrow> bool" where
  "isTokenExpired now s =
     (case tokenMetadata s of
        None \<Rightarrow> True
      | Some held \<Rightarrow> (let expirationBuffer = 60 * 1000 in now \<ge> expiresAt held - expirationBuffer))"

definition ensureValidToken :: "'a env \<Rightarrow> auth_state \<Rightarrow> (string + string) \<times> auth_state" where
  "ensureValidToken env s0 =
     (let s = emit EnsureValidToken s0;
          checked = (if isTokenExpired (dateNow env (length (trace s))) s
                     then (case refreshAccessToken env s of
                             (Inl msg, s') \<Rightarrow> (Some msg, s')
                           | (Inr _, s') \<Rightarrow> (None, s'))
                     else (None, s))
      in case checked of
           (Some msg, s1) \<Rightarrow> (Inl msg, s1)
         | (None, s1) \<Rightarrow>
             (case tokenMetadata s1 of
                None \<Rightarrow> (Inl noAccessTokenMessage, s1)
              | Some held \<Rightarrow>
                  if accessToken held = [] then (Inl noAccessTokenMessage, s1)
                  else (Inr (accessToken held), s1)))"

section \<open>spotify\_api.ts: retry with backoff\<close>

text \<open>
  The fields of \<open>RetryConfig\<close> are JavaScript numbers; they are integers here
  (milliseconds for the delays), as in every configuration of the repository.
\<close>

record RetryConfig =
  maxRetries :: int
  initialDelayMs :: int
  maxDelayMs :: int
  backoffMultiplier :: int

definition DEFAULT_RETRY_CONFIG :: RetryConfig where
  "DEFAULT_RETRY_CONFIG =
     \<lparr>maxRetries = 3, initialDelayMs = 1000, maxDelayMs = 10000, backoffMultiplier = 2\<rparr>"

text \<open>
  What \<open>executeWithRetry\<close> throws: an \<open>Error\<close> of \<open>SpotifyAuth\<close> passing through, or the
  \<open>SpotifyApiError\<close> built by \<open>handleError\<close> (message, \<open>statusCode\<close>, \<open>originalError\<close>).
\<close>

datatype run_error =
    PlainError string
  | SpotifyApiError string "int option" "api_failure option"

definition statusOf :: "api_failure \<Rightarrow> int option" where
  "statusOf error = orNum (statusCode error) (bodyErrorStatus error)"

definition handleError :: "api_failure option \<Rightarrow> string \<Rightarrow> run_error" where
  "handleError error operationName =
     (let status = (case error of None \<Rightarrow> None | Some e \<Rightarrow> statusOf e);
          msg = (case error of
                   None \<Rightarrow> ''Unknown error''
                 | Some e \<Rightarrow>
                     (case orStr (orStr (bodyErrorMessage e) (message e)) (Some ''Unknown error'') of
                        Some m \<Rightarrow> m | None \<Rightarrow> []));
          friendlyMessage =
            (if status = Some 401 then
               ''Authentication failed. Please re-authorize the application.''
             else if status = Some 403 then
               ''Access forbidden. You may not have the required permissions.''
             else if status = Some 404 then
               ''Resource not found. Please check the provided ID or URI.''
             else if status = Some 429 then
               ''Rate limit exceeded. Please try again later.''
             else if status = Some 500 \<or> status = Some 502 \<or> status = Some 503 then
               ''Spotify service is temporarily unavailable. Please try again later.''
             else ''Failed to '' @ operationName @ '': '' @ msg)
      in SpotifyApiError friendlyMessage status error)"

text \<open>
  The \<open>for\<close> loop of \<open>executeWithRetry\<close>, entered with the values of \<open>attempt\<close>, \<open>delay\<close>
  and \<open>lastError\<close>. Every \<open>continue\<close> runs the loop's \<open>attempt++\<close>. The \<open>console.log\<close>
  calls are left out.
\<close>

function attemptLoop ::
  "'a env \<Rightarrow> RetryConfig \<Rightarrow> string \<Rightarrow> int \<Rightarrow> int \<Rightarrow> api_failure option \<Rightarrow> auth_state
   \<Rightarrow> (run_error + 'a) \<times> auth_state" where
  "attemptLoop env rc operationName attempt delay lastError s =
     (if attempt \<le> maxRetries rc then
        (let s1 = emit Invoke s in
         case operation env (count_list (trace s) Invoke) of
           Inr result \<Rightarrow> (Inr result, s1)
         | Inl error \<Rightarrow>
             if statusOf error = Some 401 then
               (case refreshAccessToken env s1 of
                  (Inl msg, s2) \<Rightarrow> (Inl (PlainError msg), s2)
                | (Inr _, s2) \<Rightarrow>
                    attemptLoop env rc operationName (attempt + 1) delay (Some error) s2)
             else if statusOf error = Some 429 \<and> attempt < maxRetries rc then
               (let waitTime =
                      (if truthyStr (retryAfter error)
                       then (case retryAfter error of
                               Some h \<Rightarrow> map_option (\<lambda>n. n * 1000) (parseInt h)
                             | None \<Rightarrow> None)
                       else Some (min delay (maxDelayMs rc)))
                in attemptLoop env rc operationName (attempt + 1)
                     (delay * backoffMultiplier rc) (Some error) (emit (Sleep waitTime) s1))
             else if statusOf error = Some 503 \<and> attempt < maxRetries rc then
               (let waitTime = Some (min delay (maxDelayMs rc))
                in attemptLoop env rc operationName (attempt + 1)
                     (delay * backoffMultiplier rc) (Some error) (emit (Sleep waitTime) s1))
             else (Inl (handleError (Some error) operationName), s1))
      else (Inl (handleError lastError operationName), s))"
  by pat_completeness auto
termination
  by (relation "measure (\<lambda>(env, rc, operationName, attempt, delay, lastError, s).
                   nat (maxRetries rc + 1 - attempt))") auto

definition executeWithRetry ::
  "'a env \<Rightarrow> RetryConfig \<Rightarrow> string \<Rightarrow> auth_state \<Rightarrow> (run_error + 'a) \<times> auth_state" where
  "executeWithRetry env rc operationName s =
     (case ensureValidToken env s of
        (Inl msg, s1) \<Rightarrow> (Inl (PlainError msg), s1)
      | (Inr _, s1) \<Rightarrow>
          attemptLoop env rc operationName 0 (initialDelayMs rc) None s1)"

section \<open>Reading a run\<close>

text \<open>The events a call appended to the trace, and the waits among them.\<close>

definition newEvents :: "auth_state \<Rightarrow> auth_state \<Rightarrow> event list" where
  "newEvents s s' = drop (length (trace s)) (trace s')"

fun waits :: "event list \<Rightarrow> int option list" where
  "waits [] = []"
| "waits (Sleep w # evs) = w # waits evs"
| "waits (_ # evs) = waits evs"


text \<open>The guard of \<open>refreshAccessToken\<close>, \<open>this.tokenMetadata?.refreshToken\<close>, as a predicate.\<close>

definition hasRefreshToken :: "auth_state \<Rightarrow> bool" where
  "hasRefreshToken s =
     (case tokenMetadata s of None \<Rightarrow> False | Some held \<Rightarrow> truthyStr (refreshToken held))"


section \<open>Sample configurations, responses and failures\<close>

definition configWithToken :: SpotifyConfig where
  "configWithToken =
     \<lparr>clientId = ''id'', clientSecret = ''secret'', redirectUri = ''http://localhost/callback'',
      configRefreshToken = Some ''refresh-0''\<rparr>"

definition configNoToken :: SpotifyConfig where
  "configNoToken =
     \<lparr>clientId = ''id'', clientSecret = ''secret'', redirectUri = ''http://localhost/callback'',
      configRefreshToken = None\<rparr>"

definition grantBody :: TokenResponse where
  "grantBody =
     \<lparr>access_token = ''access-1'', token_type = ''Bearer'', expires_in = 3600,
      refresh_token = Some ''refresh-1'', scope = Some ''streaming''\<rparr>"

definition bareBody :: TokenResponse where
  "bareBody =
     \<lparr>access_token = ''access-2'', token_type = ''Bearer'', expires_in = 3600,
      refresh_token = None, scope = None\<rparr>"

definition failure :: "int \<Rightarrow> string option \<Rightarrow> api_failure" where
  "failure code hint =
     \<lparr>statusCode = Some code, bodyErrorStatus = None, bodyErrorMessage = None,
      message = Some ''failed'', retryAfter = hint\<rparr>"

definition nthOr :: "'b list \<Rightarrow> 'b \<Rightarrow> nat \<Rightarrow> 'b" where
  "nthOr xs d i = (if i < length xs then xs ! i else d)"

text \<open>
  A scripted world: the outcomes of the first invocations, refresh requests and grants are
  listed, each list followed by the outcome of every later one; the clock stands still.
\<close>

definition scripted ::
  "(api_failure + 'a) list \<Rightarrow> (api_failure + 'a) \<Rightarrow> (thrown + TokenResponse) list
   \<Rightarrow> (thrown + TokenResponse) \<Rightarrow> (thrown + TokenResponse) list \<Rightarrow> int \<Rightarrow> 'a env" where
  "scripted ops opRest refreshes refreshRest grants now =
     \<lparr>operation = nthOr ops opRest,
      remoteRefresh = nthOr refreshes refreshRest,
      authorizationCodeGrant = (\<lambda>i code. nthOr grants (Inl (ErrorInstance ''invalid_grant'')) i),
      dateNow = (\<lambda>t. now)\<rparr>"

text \<open>A client that has exchanged a code: it holds \<open>access-1\<close>, fresh until 3700000.\<close>

definition authWorld :: "string env" where
  "authWorld =
     scripted [] (Inr ''result'') [Inr bareBody] (Inl (ErrorInstance ''invalid_grant''))
       [Inr grantBody] 100000"

definition exchanged :: auth_state where
  "exchanged = snd (exchangeCodeForToken authWorld ''code'' (newSpotifyAuth configNoToken))"

text \<open>A remote that rejects every grant and every refresh request.\<close>

definition rejectingWorld :: "string env" where
  "rejectingWorld =
     scripted [] (Inr ''result'') [] (Inl (ErrorInstance ''invalid_grant'')) [] 100000"

text \<open>Worlds for a client that holds a fresh token (\<open>exchanged\<close>, at time 100000).\<close>

definition rateLimitedWorld :: "string env" where
  "rateLimitedWorld =
     scripted [] (Inl (failure 429 (Some ''0''))) [] (Inr bareBody) [] 100000"

definition notFoundWorld :: "string env" where
  "notFoundWorld =
     scripted [Inl (failure 404 None)] (Inr ''result'') [] (Inr bareBody) [] 100000"

definition expiredOnceWorld :: "string env" where
  "expiredOnceWorld =
     scripted [Inl (failure 401 None)] (Inr ''result'') [] (Inr bareBody) [] 100000"

definition expiredTwiceWorld :: "string env" where
  "expiredTwiceWorld =
     scripted [Inl (failure 401 None), Inl (failure 401 None)] (Inr ''result'')
       [] (Inr bareBody) [] 100000"




definition singleAttemptPolicy :: RetryConfig where
  "singleAttemptPolicy = DEFAULT_RETRY_CONFIG\<lparr>maxRetries := 0\<rparr>"

definition oneRetryPolicy :: RetryConfig where
  "oneRetryPolicy = DEFAULT_RETRY_CONFIG\<lparr>maxRetries := 1\<rparr>"
section \<open>Basic facts about the state\<close>

lemma emit_simps [simp]:
  "trace (emit ev s) = trace s @ [ev]"
  "tokenMetadata (emit ev s) = tokenMetadata s"
  "apiAccessToken (emit ev s) = apiAccessToken s"
  "apiRefreshToken (emit ev s) = apiRefreshToken s"
  by (simp_all add: emit_def)

lemma exchanged_state:
  "exchanged =
     \<lparr>tokenMetadata = Some \<lparr>accessToken = ''access-1'', refreshToken = Some ''refresh-1'',
                            expiresAt = 3700000\<rparr>,
      apiAccessToken = Some ''access-1'', apiRefreshToken = Some ''refresh-1'',
      trace = [AuthorizationCodeGrant]\<rparr>"
  by code_simp

section \<open>The token lifecycle\<close>

text \<open>
  C7. \<open>isTokenExpired\<close> is true exactly when no credential is held or the clock has reached
  \<open>expiresAt\<close> minus 60 seconds (60000 ms): a credential whose \<open>expiresAt\<close> is at most 60
  seconds after now (that bound included), or already past, is expired, and one whose
  \<open>expiresAt\<close> is strictly more than 60 seconds after now is not.
\<close>

theorem isTokenExpired_safety_buffer:
  "(isTokenExpired now s \<longleftrightarrow>
      tokenMetadata s = None
      \<or> (\<exists>held. tokenMetadata s = Some held \<and> now \<ge> expiresAt held - 60 * 1000))
   \<and> (\<forall>held. tokenMetadata s = Some held \<longrightarrow> expiresAt held \<le> now + 60 * 1000
          \<longrightarrow> isTokenExpired now s)
   \<and> (\<forall>held. tokenMetadata s = Some held \<longrightarrow> expiresAt held > now + 60 * 1000
          \<longrightarrow> \<not> isTokenExpired now s)"
  by (auto simp: isTokenExpired_def Let_def split: option.splits)

theorem isTokenExpired_safety_buffer_witness:
  "isTokenExpired 3640000 exchanged \<and> \<not> isTokenExpired 3639999 exchanged
   \<and> isTokenExpired 3639999 (newSpotifyAuth configNoToken)"
proof -
  let ?held = "\<lparr>accessToken = ''access-1'', refreshToken = Some ''refresh-1'',
                 expiresAt = 3700000\<rparr>"
  have held: "tokenMetadata exchanged = Some ?held"
    by (simp add: exchanged_state)
  have near: "expiresAt ?held \<le> 3640000 + 60 * 1000" by simp
  have far: "expiresAt ?held > 3639999 + 60 * 1000" by simp
  have none: "tokenMetadata (newSpotifyAuth configNoToken) = None" by code_simp
  from isTokenExpired_safety_buffer[of 3640000 exchanged] held near
  have a: "isTokenExpired 3640000 exchanged" by blast
  from isTokenExpired_safety_buffer[of 3639999 exchanged] held far
  have b: "\<not> isTokenExpired 3639999 exchanged" by blast
  from isTokenExpired_safety_buffer[of 3639999 "newSpotifyAuth configNoToken"] none
  have c: "isTokenExpired 3639999 (newSpotifyAuth configNoToken)" by blast
  from a b c show ?thesis by blast
qed

text \<open>
  C10. Whenever \<open>refreshAccessToken\<close> raises, with no refresh token held or with the remote
  rejecting the request, \<open>tokenMetadata\<close> (access token, refresh token and expiry) is what
  it was before the call, and so are the tokens set in the API client.
\<close>

theorem refreshAccessToken_failure_keeps_credential:
  assumes "refreshAccessToken env s = (Inl msg, s')"
  shows "tokenMetadata s' = tokenMetadata s \<and> apiAccessToken s' = apiAccessToken s
         \<and> apiRefreshToken s' = apiRefreshToken s"
  using assms
  by (auto simp: refreshAccessToken_def Let_def split: option.splits if_splits sum.splits)

theorem refreshAccessToken_failure_keeps_credential_witness:
  "refreshAccessToken authWorld (newSpotifyAuth configNoToken)
     = (Inl noRefreshTokenMessage, emit RefreshAccessToken (newSpotifyAuth configNoToken))
   \<and> tokenMetadata (emit RefreshAccessToken (newSpotifyAuth configNoToken))
     = tokenMetadata (newSpotifyAuth configNoToken)
   \<and> refreshAccessToken authWorld (snd (refreshAccessToken authWorld exchanged))
     = (Inl ''Failed to refresh access token: invalid_grant'',
        emit RemoteRefresh (emit RefreshAccessToken (snd (refreshAccessToken authWorld exchanged))))
   \<and> tokenMetadata
       (emit RemoteRefresh (emit RefreshAccessToken (snd (refreshAccessToken authWorld exchanged))))
     = tokenMetadata (snd (refreshAccessToken authWorld exchanged))"
proof -
  have a: "refreshAccessToken authWorld (newSpotifyAuth configNoToken)
             = (Inl noRefreshTokenMessage, emit RefreshAccessToken (newSpotifyAuth configNoToken))"
    by code_simp
  have b: "refreshAccessToken authWorld (snd (refreshAccessToken authWorld exchanged))
             = (Inl ''Failed to refresh access token: invalid_grant'',
                emit RemoteRefresh
                  (emit RefreshAccessToken (snd (refreshAccessToken authWorld exchanged))))"
    by code_simp
  from refreshAccessToken_failure_keeps_credential[OF a]
       refreshAccessToken_failure_keeps_credential[OF b] a b
  show ?thesis by blast
qed

text \<open>
  C9, as the code has it. If the remote authorization-code exchange fails,
  \<open>exchangeCodeForToken\<close> raises an error whose message wraps the remote's, and the held
  credential is what it was before the call: none afterwards if none was held, the earlier
  one if one was.
\<close>

theorem exchangeCodeForToken_failure_raises:
  assumes "authorizationCodeGrant env (count_list (trace s) AuthorizationCodeGrant) code
             = Inl error"
  shows "\<exists>s'. exchangeCodeForToken env code s
                = (Inl (''Failed to exchange authorization code for token: ''
                        @ thrownMessage error), s')
              \<and> tokenMetadata s' = tokenMetadata s
              \<and> apiAccessToken s' = apiAccessToken s
              \<and> apiRefreshToken s' = apiRefreshToken s"
  using assms by (simp add: exchangeCodeForToken_def Let_def)

theorem exchangeCodeForToken_failure_raises_witness:
  "fst (exchangeCodeForToken rejectingWorld ''code'' (newSpotifyAuth configNoToken))
     = Inl ''Failed to exchange authorization code for token: invalid_grant''
   \<and> tokenMetadata (snd (exchangeCodeForToken rejectingWorld ''code''
                            (newSpotifyAuth configNoToken))) = None"
proof -
  have rejected:
    "authorizationCodeGrant rejectingWorld
       (count_list (trace (newSpotifyAuth configNoToken)) AuthorizationCodeGrant) ''code''
     = Inl (ErrorInstance ''invalid_grant'')"
    by code_simp
  have none: "tokenMetadata (newSpotifyAuth configNoToken) = None" by code_simp
  from exchangeCodeForToken_failure_raises[OF rejected] none
  show ?thesis by (auto simp: thrownMessage_def)
qed

text \<open>
  The sentence of the specification fails where a credential was held before: a client that has
  exchanged one code and then fails to exchange a second still holds \<open>access-1\<close>.
\<close>

theorem exchangeCodeForToken_failure_counterexample:
  "fst (exchangeCodeForToken authWorld ''expired-code'' exchanged)
     = Inl ''Failed to exchange authorization code for token: invalid_grant''
   \<and> tokenMetadata (snd (exchangeCodeForToken authWorld ''expired-code'' exchanged))
     = Some \<lparr>accessToken = ''access-1'', refreshToken = Some ''refresh-1'',
             expiresAt = 3700000\<rparr>"
  by code_simp


text \<open>
  C8, as the code has it. After \<open>refreshAccessToken\<close> succeeds on a remote response that
  omits a new refresh token, the held refresh token (and the one set in the API client) is
  what it was before the call; on a response that omits the scope, the token response
  returned carries the fixed scope list \<open>SPOTIFY_SCOPES\<close>, joined by spaces.
\<close>

theorem refreshAccessToken_retains_refresh_token:
  assumes "refreshAccessToken env s = (Inr tokenResponse, s')"
      and "remoteRefresh env (count_list (trace s) RemoteRefresh) = Inr body"
  shows "(refresh_token body = None \<longrightarrow>
            map_option refreshToken (tokenMetadata s') = map_option refreshToken (tokenMetadata s)
            \<and> refresh_token tokenResponse = Option.bind (tokenMetadata s) refreshToken
            \<and> apiRefreshToken s' = apiRefreshToken s)
       \<and> (scope body = None \<longrightarrow>
            scope tokenResponse = Some (joinWith '' '' SPOTIFY_SCOPES))"
  using assms
  by (auto simp: refreshAccessToken_def Let_def orStr_def truthyStr_def
           split: option.splits if_splits sum.splits)

theorem refreshAccessToken_retains_refresh_token_witness:
  "map_option refreshToken (tokenMetadata (snd (refreshAccessToken authWorld exchanged)))
     = map_option refreshToken (tokenMetadata exchanged)
   \<and> map_option refreshToken (tokenMetadata exchanged) = Some (Some ''refresh-1'')
   \<and> map_sum id scope (fst (refreshAccessToken authWorld exchanged))
     = Inr (Some (joinWith '' '' SPOTIFY_SCOPES))"
proof -
  have "fst (refreshAccessToken authWorld exchanged)
          = Inr \<lparr>access_token = ''access-2'', token_type = ''Bearer'', expires_in = 3600,
                 refresh_token = Some ''refresh-1'',
                 scope = Some (joinWith '' '' SPOTIFY_SCOPES)\<rparr>"
    (is "fst ?call = Inr ?response")
    by code_simp
  then have run: "?call = (Inr ?response, snd ?call)"
    by (metis prod.collapse)
  have body: "remoteRefresh authWorld (count_list (trace exchanged) RemoteRefresh) = Inr bareBody"
    by code_simp
  have omitted: "refresh_token bareBody = None" "scope bareBody = None"
    by (simp_all add: bareBody_def)
  have held: "map_option refreshToken (tokenMetadata exchanged) = Some (Some ''refresh-1'')"
    by (simp add: exchanged_state)
  from refreshAccessToken_retains_refresh_token[OF run body] omitted
  have "map_option refreshToken (tokenMetadata (snd ?call))
          = map_option refreshToken (tokenMetadata exchanged)"
    and "scope ?response = Some (joinWith '' '' SPOTIFY_SCOPES)"
    by blast+
  with held \<open>fst ?call = Inr ?response\<close> show ?thesis by simp
qed

text \<open>
  The second half of the specification's sentence fails: the code records no scope. A client whose
  exchange answered with the scope \<open>streaming\<close> gets the fixed list back from a refresh
  whose response omits the scope.
\<close>

theorem refreshAccessToken_scope_counterexample:
  "fst (exchangeCodeForToken authWorld ''code'' (newSpotifyAuth configNoToken)) = Inr grantBody
   \<and> scope grantBody = Some ''streaming''
   \<and> remoteRefresh authWorld (count_list (trace exchanged) RemoteRefresh) = Inr bareBody
   \<and> scope bareBody = None
   \<and> fst (refreshAccessToken authWorld exchanged)
     = Inr \<lparr>access_token = ''access-2'', token_type = ''Bearer'', expires_in = 3600,
            refresh_token = Some ''refresh-1'',
            scope = Some ''user-read-playback-state user-modify-playback-state user-read-currently-playing playlist-read-private playlist-read-collaborative user-library-read''\<rparr>"
  by code_simp

section \<open>One step of the retry loop\<close>

declare attemptLoop.simps [simp del]

lemma loop_exit:
  "\<not> a \<le> maxRetries rc \<Longrightarrow> attemptLoop env rc nm a d le s = (Inl (handleError le nm), s)"
  by (subst attemptLoop.simps) simp

lemma loop_success:
  "a \<le> maxRetries rc \<Longrightarrow> operation env (count_list (trace s) Invoke) = Inr v \<Longrightarrow>
   attemptLoop env rc nm a d le s = (Inr v, emit Invoke s)"
  by (subst attemptLoop.simps) (simp add: Let_def)

lemma loop_401_raise:
  "a \<le> maxRetries rc \<Longrightarrow> operation env (count_list (trace s) Invoke) = Inl e \<Longrightarrow>
   statusOf e = Some 401 \<Longrightarrow> refreshAccessToken env (emit Invoke s) = (Inl msg, s2) \<Longrightarrow>
   attemptLoop env rc nm a d le s = (Inl (PlainError msg), s2)"
  by (subst attemptLoop.simps) (simp add: Let_def)

lemma loop_401_retry:
  "a \<le> maxRetries rc \<Longrightarrow> operation env (count_list (trace s) Invoke) = Inl e \<Longrightarrow>
   statusOf e = Some 401 \<Longrightarrow> refreshAccessToken env (emit Invoke s) = (Inr tr, s2) \<Longrightarrow>
   attemptLoop env rc nm a d le s = attemptLoop env rc nm (a + 1) d (Some e) s2"
  by (subst attemptLoop.simps) (simp add: Let_def)

lemma loop_429_retry:
  "a < maxRetries rc \<Longrightarrow> operation env (count_list (trace s) Invoke) = Inl e \<Longrightarrow>
   statusOf e = Some 429 \<Longrightarrow>
   attemptLoop env rc nm a d le s =
     attemptLoop env rc nm (a + 1) (d * backoffMultiplier rc) (Some e)
       (emit (Sleep (if truthyStr (retryAfter e)
                     then (case retryAfter e of
                             Some h \<Rightarrow> map_option (\<lambda>n. n * 1000) (parseInt h)
                           | None \<Rightarrow> None)
                     else Some (min d (maxDelayMs rc))))
         (emit Invoke s))"
  by (subst attemptLoop.simps) (simp add: Let_def)

lemma loop_503_retry:
  "a < maxRetries rc \<Longrightarrow> operation env (count_list (trace s) Invoke) = Inl e \<Longrightarrow>
   statusOf e = Some 503 \<Longrightarrow>
   attemptLoop env rc nm a d le s =
     attemptLoop env rc nm (a + 1) (d * backoffMultiplier rc) (Some e)
       (emit (Sleep (Some (min d (maxDelayMs rc)))) (emit Invoke s))"
  by (subst attemptLoop.simps) (simp add: Let_def)

lemma loop_raise:
  "a \<le> maxRetries rc \<Longrightarrow> operation env (count_list (trace s) Invoke) = Inl e \<Longrightarrow>
   statusOf e \<noteq> Some 401 \<Longrightarrow>
   (statusOf e = Some 429 \<or> statusOf e = Some 503 \<Longrightarrow> \<not> a < maxRetries rc) \<Longrightarrow>
   attemptLoop env rc nm a d le s = (Inl (handleError (Some e) nm), emit Invoke s)"
  by (subst attemptLoop.simps) (auto simp add: Let_def)

section \<open>What each call appends to the trace\<close>

lemma newEvents_append [simp]: "trace s' = trace s @ evs \<Longrightarrow> newEvents s s' = evs"
  by (simp add: newEvents_def)

lemma refreshAccessToken_trace:
  assumes "refreshAccessToken env s = (r, s')"
  shows "trace s' = trace s @ [RefreshAccessToken]
         \<or> trace s' = trace s @ [RefreshAccessToken, RemoteRefresh]"
  using assms
  by (auto simp: refreshAccessToken_def Let_def split: option.splits if_splits sum.splits)

lemma ensureValidToken_trace:
  assumes "ensureValidToken env s = (r, s')"
  shows "trace s' = trace s @ [EnsureValidToken]
         \<or> trace s' = trace s @ [EnsureValidToken, RefreshAccessToken]
         \<or> trace s' = trace s @ [EnsureValidToken, RefreshAccessToken, RemoteRefresh]"
proof -
  obtain rr s2 where rf: "refreshAccessToken env (emit EnsureValidToken s) = (rr, s2)"
    by (cases "refreshAccessToken env (emit EnsureValidToken s)")
  from refreshAccessToken_trace[OF rf]
  have t2: "trace s2 = trace s @ [EnsureValidToken, RefreshAccessToken]
            \<or> trace s2 = trace s @ [EnsureValidToken, RefreshAccessToken, RemoteRefresh]"
    by simp
  from assms rf have "s' = emit EnsureValidToken s \<or> s' = s2"
    by (auto simp: ensureValidToken_def Let_def split: if_splits sum.splits option.splits)
  with t2 show ?thesis by auto
qed

lemma attemptLoop_trace:
  "attemptLoop env rc nm a d le s = (r, s') \<Longrightarrow>
     \<exists>evs. trace s' = trace s @ evs \<and> EnsureValidToken \<notin> set evs"
proof (induction "nat (maxRetries rc + 1 - a)" arbitrary: a d le s)
  case 0
  then have "\<not> a \<le> maxRetries rc" by simp
  with "0.prems" show ?case by (simp add: loop_exit)
next
  case (Suc n)
  then have le: "a \<le> maxRetries rc" and n: "n = nat (maxRetries rc + 1 - (a + 1))"
    by linarith+
  note IH = Suc.hyps(1)[OF n]
  show ?case
  proof (cases "operation env (count_list (trace s) Invoke)")
    case (Inr v)
    with le Suc.prems show ?thesis by (auto simp: loop_success)
  next
    case (Inl e)
    consider (auth) "statusOf e = Some 401"
      | (rate) "statusOf e = Some 429" "a < maxRetries rc"
      | (unavailable) "statusOf e = Some 503" "a < maxRetries rc"
      | (fatal) "statusOf e \<noteq> Some 401"
                "statusOf e = Some 429 \<or> statusOf e = Some 503 \<Longrightarrow> \<not> a < maxRetries rc"
      by blast
    then show ?thesis
    proof cases
      case auth
      obtain rr s2 where rf: "refreshAccessToken env (emit Invoke s) = (rr, s2)"
        by (cases "refreshAccessToken env (emit Invoke s)")
      from refreshAccessToken_trace[OF rf]
      obtain evs0 where t2: "trace s2 = trace s @ evs0" "EnsureValidToken \<notin> set evs0"
        by auto
      show ?thesis
      proof (cases rr)
        case (Inl msg)
        with loop_401_raise[OF le \<open>operation env _ = Inl e\<close> auth] rf Suc.prems t2
        show ?thesis by auto
      next
        case (Inr tr)
        with loop_401_retry[OF le \<open>operation env _ = Inl e\<close> auth] rf Suc.prems
        have "attemptLoop env rc nm (a + 1) d (Some e) s2 = (r, s')" by simp
        from IH[OF this] t2 show ?thesis by auto
      qed
    next
      case rate
      from loop_429_retry[OF rate(2) Inl rate(1)] Suc.prems
      obtain w where "attemptLoop env rc nm (a + 1) (d * backoffMultiplier rc) (Some e)
                 (emit (Sleep w) (emit Invoke s)) = (r, s')"
        by metis
      from IH[OF this] show ?thesis by auto
    next
      case unavailable
      from loop_503_retry[OF unavailable(2) Inl unavailable(1)] Suc.prems
      obtain w where "attemptLoop env rc nm (a + 1) (d * backoffMultiplier rc) (Some e)
                 (emit (Sleep w) (emit Invoke s)) = (r, s')"
        by metis
      from IH[OF this] show ?thesis by auto
    next
      case fatal
      from loop_raise[OF le Inl fatal] Suc.prems show ?thesis by auto
    qed
  qed
qed

section \<open>The pre-flight check and fatal failures\<close>

text \<open>
  C6. Every run enters \<open>ensureValidToken\<close> exactly once, before anything else. If it fails,
  the failure is what the run raises and the operation is never invoked. A client that
  holds no credential (one constructed without a refresh token, on which no exchange has
  succeeded) gets the no-refresh-token error, and no request is sent to the remote.
\<close>

theorem executeWithRetry_preflight:
  "(\<exists>rest. trace (snd (executeWithRetry env rc nm s)) = trace s @ EnsureValidToken # rest
            \<and> EnsureValidToken \<notin> set rest)
   \<and> (\<forall>msg s1. ensureValidToken env s = (Inl msg, s1) \<longrightarrow>
         executeWithRetry env rc nm s = (Inl (PlainError msg), s1)
         \<and> Invoke \<notin> set (newEvents s s1) \<and> Sleep w \<notin> set (newEvents s s1))
   \<and> (tokenMetadata s = None \<longrightarrow>
         executeWithRetry env rc nm s
           = (Inl (PlainError noRefreshTokenMessage),
              emit RefreshAccessToken (emit EnsureValidToken s)))
   \<and> (\<not> truthyStr (configRefreshToken config) \<longrightarrow>
         tokenMetadata (newSpotifyAuth config) = None
         \<and> executeWithRetry env rc nm (newSpotifyAuth config)
           = (Inl (PlainError noRefreshTokenMessage),
              \<lparr>tokenMetadata = None, apiAccessToken = None, apiRefreshToken = None,
               trace = [EnsureValidToken, RefreshAccessToken]\<rparr>))"
proof (intro conjI allI impI)
  obtain r1 s1 where en: "ensureValidToken env s = (r1, s1)"
    by (cases "ensureValidToken env s")
  from ensureValidToken_trace[OF en]
  obtain evs1 where t1: "trace s1 = trace s @ EnsureValidToken # evs1"
    and n1: "EnsureValidToken \<notin> set evs1"
    by auto
  show "\<exists>rest. trace (snd (executeWithRetry env rc nm s)) = trace s @ EnsureValidToken # rest
               \<and> EnsureValidToken \<notin> set rest"
  proof (cases r1)
    case (Inl msg)
    with en t1 n1 show ?thesis by (simp add: executeWithRetry_def)
  next
    case (Inr token)
    obtain r2 s2 where lp: "attemptLoop env rc nm 0 (initialDelayMs rc) None s1 = (r2, s2)"
      by (cases "attemptLoop env rc nm 0 (initialDelayMs rc) None s1")
    from attemptLoop_trace[OF lp]
    obtain evs2 where "trace s2 = trace s1 @ evs2" "EnsureValidToken \<notin> set evs2" by auto
    with Inr en lp t1 n1 show ?thesis by (simp add: executeWithRetry_def)
  qed
next
  fix msg s1
  assume en: "ensureValidToken env s = (Inl msg, s1)"
  then show "executeWithRetry env rc nm s = (Inl (PlainError msg), s1)"
    by (simp add: executeWithRetry_def)
  from ensureValidToken_trace[OF en]
  show "Invoke \<notin> set (newEvents s s1)" "Sleep w \<notin> set (newEvents s s1)"
    by auto
next
  assume "tokenMetadata s = None"
  then show "executeWithRetry env rc nm s
               = (Inl (PlainError noRefreshTokenMessage),
                  emit RefreshAccessToken (emit EnsureValidToken s))"
    by (simp add: executeWithRetry_def ensureValidToken_def isTokenExpired_def
        refreshAccessToken_def Let_def)
next
  assume no: "\<not> truthyStr (configRefreshToken config)"
  then show "tokenMetadata (newSpotifyAuth config) = None"
    by (simp add: newSpotifyAuth_def)
  from no show "executeWithRetry env rc nm (newSpotifyAuth config)
           = (Inl (PlainError noRefreshTokenMessage),
              \<lparr>tokenMetadata = None, apiAccessToken = None, apiRefreshToken = None,
               trace = [EnsureValidToken, RefreshAccessToken]\<rparr>)"
    by (simp add: executeWithRetry_def ensureValidToken_def isTokenExpired_def
        refreshAccessToken_def Let_def newSpotifyAuth_def emit_def)
qed

theorem executeWithRetry_preflight_witness:
  "executeWithRetry rejectingWorld DEFAULT_RETRY_CONFIG ''search tracks''
       (newSpotifyAuth configNoToken)
     = (Inl (PlainError noRefreshTokenMessage),
        \<lparr>tokenMetadata = None, apiAccessToken = None, apiRefreshToken = None,
         trace = [EnsureValidToken, RefreshAccessToken]\<rparr>)
   \<and> fst (executeWithRetry rejectingWorld DEFAULT_RETRY_CONFIG ''search tracks''
            (newSpotifyAuth configWithToken))
     = Inl (PlainError ''Failed to refresh access token: invalid_grant'')
   \<and> Invoke \<notin> set (newEvents (newSpotifyAuth configWithToken)
                       (snd (ensureValidToken rejectingWorld (newSpotifyAuth configWithToken))))"
proof -
  have none: "\<not> truthyStr (configRefreshToken configNoToken)"
    by (simp add: configNoToken_def truthyStr_def)
  have "fst (ensureValidToken rejectingWorld (newSpotifyAuth configWithToken))
          = Inl ''Failed to refresh access token: invalid_grant''"
    (is "fst ?call = _")
    by code_simp
  then have rejected:
    "?call = (Inl ''Failed to refresh access token: invalid_grant'', snd ?call)"
    by (metis prod.collapse)
  from executeWithRetry_preflight[of rejectingWorld DEFAULT_RETRY_CONFIG "''search tracks''"
             "newSpotifyAuth configNoToken" _ configNoToken] none
  have a: "executeWithRetry rejectingWorld DEFAULT_RETRY_CONFIG ''search tracks''
             (newSpotifyAuth configNoToken)
           = (Inl (PlainError noRefreshTokenMessage),
              \<lparr>tokenMetadata = None, apiAccessToken = None, apiRefreshToken = None,
               trace = [EnsureValidToken, RefreshAccessToken]\<rparr>)"
    by blast
  from executeWithRetry_preflight[of rejectingWorld DEFAULT_RETRY_CONFIG "''search tracks''"
             "newSpotifyAuth configWithToken" _ configNoToken] rejected
  have b: "executeWithRetry rejectingWorld DEFAULT_RETRY_CONFIG ''search tracks''
             (newSpotifyAuth configWithToken)
           = (Inl (PlainError ''Failed to refresh access token: invalid_grant''), snd ?call)
         \<and> Invoke \<notin> set (newEvents (newSpotifyAuth configWithToken) (snd ?call))"
    by blast
  from a b show ?thesis by simp
qed

lemma handleError_401:
  "statusOf e = Some 401 \<Longrightarrow>
   handleError (Some e) nm
     = SpotifyApiError ''Authentication failed. Please re-authorize the application.''
         (Some 401) (Some e)"
  by (simp add: handleError_def)

lemma handleError_404:
  "statusOf e = Some 404 \<Longrightarrow>
   handleError (Some e) nm
     = SpotifyApiError ''Resource not found. Please check the provided ID or URI.''
         (Some 404) (Some e)"
  by (simp add: handleError_def)

lemma handleError_429:
  "statusOf e = Some 429 \<Longrightarrow>
   handleError (Some e) nm
     = SpotifyApiError ''Rate limit exceeded. Please try again later.'' (Some 429) (Some e)"
  by (simp add: handleError_def)

lemma handleError_classified:
  "\<exists>friendly. handleError (Some e) nm = SpotifyApiError friendly (statusOf e) (Some e)"
  by (simp add: handleError_def Let_def)

lemma waits_append [simp]: "waits (xs @ ys) = waits xs @ waits ys"
  by (induction xs rule: waits.induct) simp_all

lemma ensureValidToken_events:
  assumes "ensureValidToken env s = (r, s1)"
  shows "\<exists>evs. trace s1 = trace s @ evs \<and> count_list evs Invoke = 0 \<and> waits evs = []
               \<and> count_list evs EnsureValidToken = 1"
  using ensureValidToken_trace[OF assms] by auto

text \<open>
  C5. With \<open>maxRetries\<close> non-negative and the pre-flight check passed, an operation whose
  first invocation fails with a status other than 401, 429 and 503, or with no status at
  all, is invoked exactly once: the run raises the classified error for that failure at
  once, with no wait and no further event. For status 404 the message is the not-found
  wording.
\<close>

theorem executeWithRetry_fatal_immediate:
  assumes "0 \<le> maxRetries rc"
      and "ensureValidToken env s = (Inr token, s1)"
      and "operation env (count_list (trace s1) Invoke) = Inl e"
      and "statusOf e \<noteq> Some 401" and "statusOf e \<noteq> Some 429" and "statusOf e \<noteq> Some 503"
  shows "executeWithRetry env rc nm s = (Inl (handleError (Some e) nm), emit Invoke s1)
       \<and> (\<exists>friendly. handleError (Some e) nm = SpotifyApiError friendly (statusOf e) (Some e))
       \<and> newEvents s1 (emit Invoke s1) = [Invoke]
       \<and> count_list (newEvents s (emit Invoke s1)) Invoke = 1
       \<and> waits (newEvents s (emit Invoke s1)) = []
       \<and> (statusOf e = Some 404 \<longrightarrow>
             handleError (Some e) nm
               = SpotifyApiError ''Resource not found. Please check the provided ID or URI.''
                   (Some 404) (Some e))"
proof -
  from assms(3-6) assms(1)
  have "attemptLoop env rc nm 0 (initialDelayMs rc) None s1
          = (Inl (handleError (Some e) nm), emit Invoke s1)"
    by (intro loop_raise) auto
  with assms(2)
  have run: "executeWithRetry env rc nm s = (Inl (handleError (Some e) nm), emit Invoke s1)"
    by (simp add: executeWithRetry_def)
  from ensureValidToken_events[OF assms(2)]
  obtain evs where "trace s1 = trace s @ evs" "count_list evs Invoke = 0" "waits evs = []"
    by blast
  then have "newEvents s (emit Invoke s1) = evs @ [Invoke]"
    by simp
  with \<open>count_list evs Invoke = 0\<close> \<open>waits evs = []\<close>
  have "count_list (newEvents s (emit Invoke s1)) Invoke = 1"
    and "waits (newEvents s (emit Invoke s1)) = []"
    by simp_all
  with run handleError_classified[of e nm] handleError_404[of e nm]
  show ?thesis by simp
qed

theorem executeWithRetry_fatal_immediate_witness:
  "executeWithRetry notFoundWorld DEFAULT_RETRY_CONFIG ''search tracks'' exchanged
     = (Inl (SpotifyApiError ''Resource not found. Please check the provided ID or URI.''
               (Some 404) (Some (failure 404 None))),
        emit Invoke (emit EnsureValidToken exchanged))
   \<and> count_list (newEvents exchanged (emit Invoke (emit EnsureValidToken exchanged))) Invoke = 1
   \<and> waits (newEvents exchanged (emit Invoke (emit EnsureValidToken exchanged))) = []"
proof -
  have retries: "0 \<le> maxRetries DEFAULT_RETRY_CONFIG"
    by (simp add: DEFAULT_RETRY_CONFIG_def)
  have preflight: "ensureValidToken notFoundWorld exchanged
                     = (Inr ''access-1'', emit EnsureValidToken exchanged)"
    by code_simp
  have first: "operation notFoundWorld (count_list (trace (emit EnsureValidToken exchanged)) Invoke)
                 = Inl (failure 404 None)"
    by code_simp
  have status: "statusOf (failure 404 None) = Some 404"
    by code_simp
  from executeWithRetry_fatal_immediate[OF retries preflight first, of "''search tracks''"] status
  show ?thesis by simp
qed

section \<open>Rate limiting until the retries are exhausted\<close>

lemma always_rate_limited:
  assumes all: "\<forall>i. \<exists>e. operation env i = Inl e \<and> statusOf e = Some 429"
  shows "a \<le> maxRetries rc \<Longrightarrow>
         \<exists>e s' evs.
           attemptLoop env rc nm a d le s
             = (Inl (SpotifyApiError ''Rate limit exceeded. Please try again later.''
                      (Some 429) (Some e)), s')
           \<and> operation env (count_list (trace s) Invoke + nat (maxRetries rc - a)) = Inl e
           \<and> trace s' = trace s @ evs
           \<and> count_list evs Invoke = nat (maxRetries rc - a) + 1
           \<and> length (waits evs) = nat (maxRetries rc - a)"
proof (induction "nat (maxRetries rc - a)" arbitrary: a d le s)
  case 0
  then have last: "a = maxRetries rc" by simp
  from all obtain e where e: "operation env (count_list (trace s) Invoke) = Inl e"
    "statusOf e = Some 429" by blast
  from last e have "attemptLoop env rc nm a d le s = (Inl (handleError (Some e) nm), emit Invoke s)"
    by (intro loop_raise) auto
  with e last show ?case by (simp add: handleError_429)
next
  case (Suc n)
  then have lt: "a < maxRetries rc" and n: "n = nat (maxRetries rc - (a + 1))"
    and le': "a + 1 \<le> maxRetries rc"
    by linarith+
  from all obtain e where e: "operation env (count_list (trace s) Invoke) = Inl e"
    "statusOf e = Some 429" by blast
  from loop_429_retry[OF lt e]
  obtain w where step: "attemptLoop env rc nm a d le s
                   = attemptLoop env rc nm (a + 1) (d * backoffMultiplier rc) (Some e)
                       (emit (Sleep w) (emit Invoke s))"
    by blast
  from Suc.hyps(1)[OF n le', of "d * backoffMultiplier rc" "Some e"
                      "emit (Sleep w) (emit Invoke s)"]
  obtain e' s' evs where rest:
    "attemptLoop env rc nm (a + 1) (d * backoffMultiplier rc) (Some e)
         (emit (Sleep w) (emit Invoke s))
       = (Inl (SpotifyApiError ''Rate limit exceeded. Please try again later.''
                (Some 429) (Some e')), s')"
    "operation env (count_list (trace (emit (Sleep w) (emit Invoke s))) Invoke + n) = Inl e'"
    "trace s' = trace (emit (Sleep w) (emit Invoke s)) @ evs"
    "count_list evs Invoke = n + 1"
    "length (waits evs) = n"
    using n by auto
  from Suc.hyps(2) have m: "nat (maxRetries rc - a) = Suc n" by simp
  from rest(2) have "operation env (count_list (trace s) Invoke + Suc n) = Inl e'"
    by simp
  moreover from rest(3) have "trace s' = trace s @ ([Invoke, Sleep w] @ evs)"
    by simp
  moreover from rest(4) have "count_list ([Invoke, Sleep w] @ evs) Invoke = Suc n + 1"
    by simp
  moreover from rest(5) have "length (waits ([Invoke, Sleep w] @ evs)) = Suc n"
    by simp
  ultimately show ?case
    unfolding m step rest(1) by blast
qed

text \<open>
  C1. With \<open>maxRetries\<close> non-negative and the pre-flight check passed, an operation that
  fails with status 429 on every invocation is invoked exactly \<open>maxRetries + 1\<close> times,
  with \<open>maxRetries\<close> waits in between, and the run then raises the classified error of the
  last failure, whose message is the rate-limit wording. With \<open>maxRetries = 3\<close> that is 4
  invocations.
\<close>

theorem executeWithRetry_rate_limit_exhaustion:
  assumes "0 \<le> maxRetries rc"
      and "ensureValidToken env s = (Inr token, s1)"
      and "\<forall>i. \<exists>e. operation env i = Inl e \<and> statusOf e = Some 429"
  shows "\<exists>e s'. executeWithRetry env rc nm s
                  = (Inl (SpotifyApiError ''Rate limit exceeded. Please try again later.''
                           (Some 429) (Some e)), s')
               \<and> operation env (count_list (trace s1) Invoke + nat (maxRetries rc)) = Inl e
               \<and> count_list (newEvents s s') Invoke = nat (maxRetries rc) + 1
               \<and> length (waits (newEvents s s')) = nat (maxRetries rc)"
proof -
  from always_rate_limited[OF assms(3), of 0 rc nm "initialDelayMs rc" None s1] assms(1)
  obtain e s' evs where loop:
    "attemptLoop env rc nm 0 (initialDelayMs rc) None s1
       = (Inl (SpotifyApiError ''Rate limit exceeded. Please try again later.''
                (Some 429) (Some e)), s')"
    "operation env (count_list (trace s1) Invoke + nat (maxRetries rc)) = Inl e"
    "trace s' = trace s1 @ evs"
    "count_list evs Invoke = nat (maxRetries rc) + 1"
    "length (waits evs) = nat (maxRetries rc)"
    by auto
  from ensureValidToken_events[OF assms(2)]
  obtain evs1 where pre: "trace s1 = trace s @ evs1" "count_list evs1 Invoke = 0"
    "waits evs1 = []"
    by blast
  from pre(1) loop(3) have "newEvents s s' = evs1 @ evs" by simp
  with pre(2,3) loop(4,5)
  have "count_list (newEvents s s') Invoke = nat (maxRetries rc) + 1"
    and "length (waits (newEvents s s')) = nat (maxRetries rc)"
    by simp_all
  moreover from assms(2) loop(1)
  have "executeWithRetry env rc nm s
          = (Inl (SpotifyApiError ''Rate limit exceeded. Please try again later.''
                   (Some 429) (Some e)), s')"
    by (simp add: executeWithRetry_def)
  ultimately show ?thesis using loop(2) by blast
qed

theorem executeWithRetry_rate_limit_exhaustion_witness:
  "maxRetries DEFAULT_RETRY_CONFIG = 3
   \<and> fst (executeWithRetry rateLimitedWorld DEFAULT_RETRY_CONFIG ''search tracks'' exchanged)
     = Inl (SpotifyApiError ''Rate limit exceeded. Please try again later.''
              (Some 429) (Some (failure 429 (Some ''0''))))
   \<and> count_list
       (newEvents exchanged
          (snd (executeWithRetry rateLimitedWorld DEFAULT_RETRY_CONFIG ''search tracks''
                  exchanged)))
       Invoke = 4"
proof -
  have retries: "0 \<le> maxRetries DEFAULT_RETRY_CONFIG"
    and three: "maxRetries DEFAULT_RETRY_CONFIG = 3"
    by (simp_all add: DEFAULT_RETRY_CONFIG_def)
  have preflight: "ensureValidToken rateLimitedWorld exchanged
                     = (Inr ''access-1'', emit EnsureValidToken exchanged)"
    by code_simp
  have every: "operation rateLimitedWorld i = Inl (failure 429 (Some ''0''))" for i
    by (simp add: rateLimitedWorld_def scripted_def nthOr_def)
  have status: "statusOf (failure 429 (Some ''0'')) = Some 429"
    by code_simp
  from every status
  have always: "\<forall>i. \<exists>e. operation rateLimitedWorld i = Inl e \<and> statusOf e = Some 429"
    by blast
  from executeWithRetry_rate_limit_exhaustion[OF retries preflight always, of "''search tracks''"]
  obtain e s' where
    "executeWithRetry rateLimitedWorld DEFAULT_RETRY_CONFIG ''search tracks'' exchanged
       = (Inl (SpotifyApiError ''Rate limit exceeded. Please try again later.''
                (Some 429) (Some e)), s')"
    "operation rateLimitedWorld
       (count_list (trace (emit EnsureValidToken exchanged)) Invoke
        + nat (maxRetries DEFAULT_RETRY_CONFIG)) = Inl e"
    "count_list (newEvents exchanged s') Invoke = nat (maxRetries DEFAULT_RETRY_CONFIG) + 1"
    by blast
  with every three show ?thesis by simp
qed

section \<open>Expired tokens: refresh and retry\<close>

lemma hasRefreshToken_emit [simp]: "hasRefreshToken (emit ev s) = hasRefreshToken s"
  by (simp add: hasRefreshToken_def)

lemma isTokenExpired_emit [simp]: "isTokenExpired now (emit ev s) = isTokenExpired now s"
  by (simp add: isTokenExpired_def)

lemma refreshAccessToken_succeeds:
  assumes "hasRefreshToken s"
      and "remoteRefresh env (count_list (trace s) RemoteRefresh) = Inr body"
  shows "\<exists>tr s2. refreshAccessToken env s = (Inr tr, s2)
                 \<and> trace s2 = trace s @ [RefreshAccessToken, RemoteRefresh]
                 \<and> hasRefreshToken s2"
  using assms
  by (auto simp: refreshAccessToken_def hasRefreshToken_def Let_def orStr_def
           split: option.splits)

lemma refreshAccessToken_keeps_refresh_token:
  assumes "refreshAccessToken env s = (r, s')" and "hasRefreshToken s"
  shows "hasRefreshToken s'"
  using assms
  by (auto simp: refreshAccessToken_def hasRefreshToken_def Let_def orStr_def
           split: option.splits if_splits sum.splits)

lemma ensureValidToken_keeps_refresh_token:
  assumes "ensureValidToken env s = (r, s1)" and "hasRefreshToken s"
  shows "hasRefreshToken s1"
proof -
  obtain rr s2 where rf: "refreshAccessToken env (emit EnsureValidToken s) = (rr, s2)"
    by (cases "refreshAccessToken env (emit EnsureValidToken s)")
  from refreshAccessToken_keeps_refresh_token[OF rf] assms(2)
  have "hasRefreshToken s2" by simp
  moreover from assms(1) rf have "s1 = emit EnsureValidToken s \<or> s1 = s2"
    by (auto simp: ensureValidToken_def Let_def split: if_splits sum.splits option.splits)
  ultimately show ?thesis using assms(2) by auto
qed

lemma ensureValidToken_refresh_calls:
  assumes "ensureValidToken env s = (r, s1)"
  shows "count_list (newEvents s s1) RefreshAccessToken
           = (if isTokenExpired (dateNow env (length (trace s) + 1)) s then 1 else 0)"
proof -
  obtain rr s2 where rf: "refreshAccessToken env (emit EnsureValidToken s) = (rr, s2)"
    by (cases "refreshAccessToken env (emit EnsureValidToken s)")
  from refreshAccessToken_trace[OF rf]
  have t2: "trace s2 = trace s @ [EnsureValidToken, RefreshAccessToken]
            \<or> trace s2 = trace s @ [EnsureValidToken, RefreshAccessToken, RemoteRefresh]"
    by simp
  show ?thesis
  proof (cases "isTokenExpired (dateNow env (length (trace s) + 1)) s")
    case True
    with assms rf have "s1 = s2"
      by (auto simp: ensureValidToken_def Let_def split: sum.splits option.splits if_splits)
    with t2 True show ?thesis by auto
  next
    case False
    with assms have "s1 = emit EnsureValidToken s"
      by (auto simp: ensureValidToken_def Let_def split: sum.splits option.splits if_splits)
    with False show ?thesis by simp
  qed
qed

lemma auth_retries:
  "hasRefreshToken s \<Longrightarrow> a + int n \<le> maxRetries rc + 1 \<Longrightarrow>
   \<forall>k<n. \<exists>e. operation env (count_list (trace s) Invoke + k) = Inl e
              \<and> statusOf e = Some 401 \<Longrightarrow>
   \<forall>k<n. \<exists>body. remoteRefresh env (count_list (trace s) RemoteRefresh + k) = Inr body \<Longrightarrow>
   \<exists>s2 le'.
     attemptLoop env rc nm a d le s = attemptLoop env rc nm (a + int n) d le' s2
     \<and> trace s2 = trace s @ concat (replicate n [Invoke, RefreshAccessToken, RemoteRefresh])
     \<and> hasRefreshToken s2
     \<and> (if n = 0 then le' = le
        else \<exists>e. le' = Some e \<and> statusOf e = Some 401
                 \<and> operation env (count_list (trace s) Invoke + (n - 1)) = Inl e)"
proof (induction n arbitrary: a le s)
  case 0
  then show ?case by auto
next
  case (Suc n)
  from Suc.prems(2) have le: "a \<le> maxRetries rc" and rest: "a + 1 + int n \<le> maxRetries rc + 1"
    by linarith+
  from Suc.prems(3) obtain e where e: "operation env (count_list (trace s) Invoke) = Inl e"
    "statusOf e = Some 401"
    by force
  from Suc.prems(4) obtain body where
    "remoteRefresh env (count_list (trace (emit Invoke s)) RemoteRefresh) = Inr body"
    by force
  from refreshAccessToken_succeeds[OF _ this] Suc.prems(1)
  obtain tr s1 where rf: "refreshAccessToken env (emit Invoke s) = (Inr tr, s1)"
    and t1: "trace s1 = trace s @ [Invoke, RefreshAccessToken, RemoteRefresh]"
    and h1: "hasRefreshToken s1"
    by auto
  note step = loop_401_retry[OF le e rf, of nm d le]
  have ops: "\<forall>k<n. \<exists>e. operation env (count_list (trace s1) Invoke + k) = Inl e
                       \<and> statusOf e = Some 401"
  proof (intro allI impI)
    fix k assume "k < n"
    then have "Suc k < Suc n" by simp
    with Suc.prems(3) obtain e' where
      "operation env (count_list (trace s) Invoke + Suc k) = Inl e'" "statusOf e' = Some 401"
      by blast
    with t1 show "\<exists>e. operation env (count_list (trace s1) Invoke + k) = Inl e
                      \<and> statusOf e = Some 401"
      by simp
  qed
  have refreshes:
    "\<forall>k<n. \<exists>body. remoteRefresh env (count_list (trace s1) RemoteRefresh + k) = Inr body"
  proof (intro allI impI)
    fix k assume "k < n"
    then have "Suc k < Suc n" by simp
    with Suc.prems(4) obtain body' where
      "remoteRefresh env (count_list (trace s) RemoteRefresh + Suc k) = Inr body'"
      by blast
    with t1 show "\<exists>body. remoteRefresh env (count_list (trace s1) RemoteRefresh + k) = Inr body"
      by simp
  qed
  from Suc.IH[OF h1 rest ops refreshes, of "Some e"]
  obtain s2 le' where ih:
    "attemptLoop env rc nm (a + 1) d (Some e) s1 = attemptLoop env rc nm (a + 1 + int n) d le' s2"
    "trace s2 = trace s1 @ concat (replicate n [Invoke, RefreshAccessToken, RemoteRefresh])"
    "hasRefreshToken s2"
    "if n = 0 then le' = Some e
     else \<exists>e. le' = Some e \<and> statusOf e = Some 401
              \<and> operation env (count_list (trace s1) Invoke + (n - 1)) = Inl e"
    by blast
  from ih(4) e t1
  have "\<exists>e. le' = Some e \<and> statusOf e = Some 401
            \<and> operation env (count_list (trace s) Invoke + (Suc n - 1)) = Inl e"
    by (cases "n = 0") auto
  moreover from ih(2) t1
  have "trace s2 = trace s @ concat (replicate (Suc n) [Invoke, RefreshAccessToken, RemoteRefresh])"
    by simp
  moreover from step ih(1)
  have "attemptLoop env rc nm a d le s = attemptLoop env rc nm (a + int (Suc n)) d le' s2"
    by (simp add: add.assoc)
  ultimately show ?case using ih(3) by auto
qed

lemma count_list_rounds [simp]:
  "count_list (concat (replicate n [Invoke, RefreshAccessToken, RemoteRefresh])) Invoke = n"
  "count_list (concat (replicate n [Invoke, RefreshAccessToken, RemoteRefresh])) RefreshAccessToken
     = n"
  "waits (concat (replicate n [Invoke, RefreshAccessToken, RemoteRefresh])) = []"
  by (induction n) simp_all

text \<open>
  C2, as the code has it. A 401 failure makes the loop call \<open>refreshAccessToken\<close> and retry
  with no wait, but the retry takes the next attempt index. So, for an operation that
  fails with 401 on its first \<open>n\<close> invocations, each refresh succeeding, and succeeds on
  the next one: if \<open>n \<le> maxRetries\<close> the run returns that result after \<open>n + 1\<close>
  invocations and \<open>n\<close> refreshes; otherwise it stops after \<open>maxRetries + 1\<close> invocations and
  raises the authentication-failed error. No wait happens either way.
\<close>

theorem executeWithRetry_auth_retry_budget:
  assumes "0 \<le> maxRetries rc"
      and "ensureValidToken env s = (Inr token, s1)"
      and "hasRefreshToken s"
      and "\<forall>k<n. \<exists>e. operation env (count_list (trace s1) Invoke + k) = Inl e
                      \<and> statusOf e = Some 401"
      and "\<forall>k<n. \<exists>body. remoteRefresh env (count_list (trace s1) RemoteRefresh + k) = Inr body"
      and "operation env (count_list (trace s1) Invoke + n) = Inr v"
  shows "if int n \<le> maxRetries rc
         then \<exists>s'. executeWithRetry env rc nm s = (Inr v, s')
                  \<and> newEvents s1 s'
                    = concat (replicate n [Invoke, RefreshAccessToken, RemoteRefresh]) @ [Invoke]
         else \<exists>e s'. executeWithRetry env rc nm s
                      = (Inl (SpotifyApiError
                               ''Authentication failed. Please re-authorize the application.''
                               (Some 401) (Some e)), s')
                  \<and> operation env (count_list (trace s1) Invoke + nat (maxRetries rc)) = Inl e
                  \<and> newEvents s1 s'
                    = concat (replicate (nat (maxRetries rc) + 1)
                                [Invoke, RefreshAccessToken, RemoteRefresh])"
proof -
  have h1: "hasRefreshToken s1"
    by (rule ensureValidToken_keeps_refresh_token[OF assms(2,3)])
  have run: "executeWithRetry env rc nm s = attemptLoop env rc nm 0 (initialDelayMs rc) None s1"
    using assms(2) by (simp add: executeWithRetry_def)
  show ?thesis
  proof (cases "int n \<le> maxRetries rc")
    case True
    then have bound: "0 + int n \<le> maxRetries rc + 1" by simp
    from auth_retries[OF h1 bound assms(4,5), of nm "initialDelayMs rc" None]
    obtain s2 le' where loop:
      "attemptLoop env rc nm 0 (initialDelayMs rc) None s1
         = attemptLoop env rc nm (0 + int n) (initialDelayMs rc) le' s2"
      "trace s2 = trace s1 @ concat (replicate n [Invoke, RefreshAccessToken, RemoteRefresh])"
      by blast
    from loop(2) assms(6) have "operation env (count_list (trace s2) Invoke) = Inr v"
      by simp
    from loop_success[OF _ this, of "int n" rc nm "initialDelayMs rc" le'] True
    have "attemptLoop env rc nm (int n) (initialDelayMs rc) le' s2 = (Inr v, emit Invoke s2)"
      by simp
    with run loop True show ?thesis by simp
  next
    case False
    define m where "m = nat (maxRetries rc) + 1"
    with False assms(1) have m: "m \<le> n" "int m = maxRetries rc + 1" by linarith+
    then have bound: "0 + int m \<le> maxRetries rc + 1" by simp
    from m(1) assms(4)
    have ops: "\<forall>k<m. \<exists>e. operation env (count_list (trace s1) Invoke + k) = Inl e
                         \<and> statusOf e = Some 401"
      by auto
    from m(1) assms(5)
    have refreshes:
      "\<forall>k<m. \<exists>body. remoteRefresh env (count_list (trace s1) RemoteRefresh + k) = Inr body"
      by auto
    from auth_retries[OF h1 bound ops refreshes, of nm "initialDelayMs rc" None]
    obtain s2 le' where loop:
      "attemptLoop env rc nm 0 (initialDelayMs rc) None s1
         = attemptLoop env rc nm (0 + int m) (initialDelayMs rc) le' s2"
      "trace s2 = trace s1 @ concat (replicate m [Invoke, RefreshAccessToken, RemoteRefresh])"
      "if m = 0 then le' = None
       else \<exists>e. le' = Some e \<and> statusOf e = Some 401
                \<and> operation env (count_list (trace s1) Invoke + (m - 1)) = Inl e"
      by blast
    from loop(3) m_def obtain e where e: "le' = Some e" "statusOf e = Some 401"
      "operation env (count_list (trace s1) Invoke + nat (maxRetries rc)) = Inl e"
      by auto
    from m(2) have "\<not> int m \<le> maxRetries rc" by simp
    from loop_exit[OF this, of env nm "initialDelayMs rc" le' s2] e
    have "attemptLoop env rc nm (int m) (initialDelayMs rc) le' s2
            = (Inl (SpotifyApiError
                     ''Authentication failed. Please re-authorize the application.''
                     (Some 401) (Some e)), s2)"
      by (simp add: handleError_401)
    with run loop(1,2) False m_def e(3) show ?thesis by simp
  qed
qed

theorem executeWithRetry_auth_retry_budget_witness:
  "fst (executeWithRetry expiredOnceWorld DEFAULT_RETRY_CONFIG ''search tracks'' exchanged)
     = Inr ''result''
   \<and> newEvents (emit EnsureValidToken exchanged)
       (snd (executeWithRetry expiredOnceWorld DEFAULT_RETRY_CONFIG ''search tracks'' exchanged))
     = [Invoke, RefreshAccessToken, RemoteRefresh, Invoke]
   \<and> fst (executeWithRetry expiredOnceWorld singleAttemptPolicy ''search tracks'' exchanged)
     = Inl (SpotifyApiError ''Authentication failed. Please re-authorize the application.''
              (Some 401) (Some (failure 401 None)))
   \<and> newEvents (emit EnsureValidToken exchanged)
       (snd (executeWithRetry expiredOnceWorld singleAttemptPolicy ''search tracks'' exchanged))
     = [Invoke, RefreshAccessToken, RemoteRefresh]"
proof -
  have three: "0 \<le> maxRetries DEFAULT_RETRY_CONFIG" "int 1 \<le> maxRetries DEFAULT_RETRY_CONFIG"
    by (simp_all add: DEFAULT_RETRY_CONFIG_def)
  have zero: "0 \<le> maxRetries singleAttemptPolicy" "\<not> int 1 \<le> maxRetries singleAttemptPolicy"
    "nat (maxRetries singleAttemptPolicy) = 0"
    by (simp_all add: singleAttemptPolicy_def DEFAULT_RETRY_CONFIG_def)
  have preflight: "ensureValidToken expiredOnceWorld exchanged
                     = (Inr ''access-1'', emit EnsureValidToken exchanged)"
    by code_simp
  have token: "hasRefreshToken exchanged"
    by code_simp
  have base: "count_list (trace (emit EnsureValidToken exchanged)) Invoke = 0"
    "count_list (trace (emit EnsureValidToken exchanged)) RemoteRefresh = 0"
    by (simp_all add: exchanged_state)
  have first: "operation expiredOnceWorld 0 = Inl (failure 401 None)"
    and status: "statusOf (failure 401 None) = Some 401"
    and refresh: "remoteRefresh expiredOnceWorld 0 = Inr bareBody"
    and second: "operation expiredOnceWorld 1 = Inr ''result''"
    by code_simp+
  from first status base
  have ops: "\<forall>k<1. \<exists>e. operation expiredOnceWorld
                           (count_list (trace (emit EnsureValidToken exchanged)) Invoke + k) = Inl e
                        \<and> statusOf e = Some 401"
    by simp
  from refresh base
  have refreshes: "\<forall>k<1. \<exists>body. remoteRefresh expiredOnceWorld
                           (count_list (trace (emit EnsureValidToken exchanged)) RemoteRefresh + k)
                         = Inr body"
    by simp
  from second base
  have then_ok: "operation expiredOnceWorld
                   (count_list (trace (emit EnsureValidToken exchanged)) Invoke + 1)
                 = Inr ''result''"
    by simp
  from executeWithRetry_auth_retry_budget[OF three(1) preflight token ops refreshes then_ok,
         of "''search tracks''"] three(2)
  have a: "\<exists>s'. executeWithRetry expiredOnceWorld DEFAULT_RETRY_CONFIG ''search tracks'' exchanged
                  = (Inr ''result'', s')
               \<and> newEvents (emit EnsureValidToken exchanged) s'
                 = [Invoke, RefreshAccessToken, RemoteRefresh, Invoke]"
    by simp
  from executeWithRetry_auth_retry_budget[OF zero(1) preflight token ops refreshes then_ok,
         of "''search tracks''"] zero(2,3) base first
  have b: "\<exists>s'. executeWithRetry expiredOnceWorld singleAttemptPolicy ''search tracks'' exchanged
                  = (Inl (SpotifyApiError
                           ''Authentication failed. Please re-authorize the application.''
                           (Some 401) (Some (failure 401 None))), s')
               \<and> newEvents (emit EnsureValidToken exchanged) s'
                 = [Invoke, RefreshAccessToken, RemoteRefresh]"
    by auto
  from a b show ?thesis by auto
qed

text \<open>
  The specification's sentence fails: with \<open>maxRetries = 1\<close>, an operation that fails with 401 twice
  and would succeed on its third invocation is invoked twice only, both refreshes having
  succeeded, and the run raises.
\<close>

theorem executeWithRetry_auth_retry_counterexample:
  "operation expiredTwiceWorld 2 = Inr ''result''
   \<and> maxRetries oneRetryPolicy = 1
   \<and> fst (executeWithRetry expiredTwiceWorld oneRetryPolicy ''search tracks'' exchanged)
     = Inl (SpotifyApiError ''Authentication failed. Please re-authorize the application.''
              (Some 401) (Some (failure 401 None)))
   \<and> trace (snd (executeWithRetry expiredTwiceWorld oneRetryPolicy ''search tracks'' exchanged))
     = [AuthorizationCodeGrant, EnsureValidToken,
        Invoke, RefreshAccessToken, RemoteRefresh,
        Invoke, RefreshAccessToken, RemoteRefresh]"
  by code_simp

text \<open>
  C4, as the code has it. With \<open>maxRetries\<close> at least 1, an operation whose first
  invocation fails with 401 and whose second succeeds, and a refresh that succeeds: the
  loop invokes the operation, refreshes once, invokes it again and returns the second
  result. Over the whole run the operation is invoked exactly twice, and
  \<open>refreshAccessToken\<close> is entered once by the loop, and once more by the pre-flight check
  when the held token was expired at the start.
\<close>

theorem executeWithRetry_auth_retry_once:
  assumes "1 \<le> maxRetries rc"
      and "ensureValidToken env s = (Inr token, s1)"
      and "hasRefreshToken s"
      and "operation env (count_list (trace s1) Invoke) = Inl e"
      and "statusOf e = Some 401"
      and "remoteRefresh env (count_list (trace s1) RemoteRefresh) = Inr body"
      and "operation env (count_list (trace s1) Invoke + 1) = Inr v"
  shows "\<exists>s'. executeWithRetry env rc nm s = (Inr v, s')
            \<and> newEvents s1 s' = [Invoke, RefreshAccessToken, RemoteRefresh, Invoke]
            \<and> count_list (newEvents s s') Invoke = 2
            \<and> count_list (newEvents s s') RefreshAccessToken
              = (if isTokenExpired (dateNow env (length (trace s) + 1)) s then 2 else 1)"
proof -
  have h1: "hasRefreshToken s1"
    by (rule ensureValidToken_keeps_refresh_token[OF assms(2,3)])
  have bound: "0 + int 1 \<le> maxRetries rc + 1" using assms(1) by simp
  from assms(4,5)
  have ops: "\<forall>k<1. \<exists>e. operation env (count_list (trace s1) Invoke + k) = Inl e
                       \<and> statusOf e = Some 401"
    by simp
  from assms(6)
  have refreshes:
    "\<forall>k<1. \<exists>body. remoteRefresh env (count_list (trace s1) RemoteRefresh + k) = Inr body"
    by simp
  from auth_retries[OF h1 bound ops refreshes, of nm "initialDelayMs rc" None]
  obtain s2 le' where loop:
    "attemptLoop env rc nm 0 (initialDelayMs rc) None s1
       = attemptLoop env rc nm (0 + int 1) (initialDelayMs rc) le' s2"
    "trace s2 = trace s1 @ concat (replicate 1 [Invoke, RefreshAccessToken, RemoteRefresh])"
    by blast
  from loop(2) have t2: "trace s2 = trace s1 @ [Invoke, RefreshAccessToken, RemoteRefresh]"
    by simp
  with assms(7) have "operation env (count_list (trace s2) Invoke) = Inr v"
    by simp
  from loop_success[OF _ this, of 1 rc nm "initialDelayMs rc" le'] assms(1)
  have "attemptLoop env rc nm 1 (initialDelayMs rc) le' s2 = (Inr v, emit Invoke s2)"
    by simp
  with loop(1) assms(2)
  have run: "executeWithRetry env rc nm s = (Inr v, emit Invoke s2)"
    by (simp add: executeWithRetry_def)
  from ensureValidToken_events[OF assms(2)]
  obtain evs1 where pre: "trace s1 = trace s @ evs1" "count_list evs1 Invoke = 0"
    by blast
  from ensureValidToken_refresh_calls[OF assms(2)] pre(1)
  have calls: "count_list evs1 RefreshAccessToken
                 = (if isTokenExpired (dateNow env (length (trace s) + 1)) s then 1 else 0)"
    by simp
  from t2 pre(1)
  have all: "newEvents s (emit Invoke s2)
               = evs1 @ [Invoke, RefreshAccessToken, RemoteRefresh, Invoke]"
    and inner: "newEvents s1 (emit Invoke s2) = [Invoke, RefreshAccessToken, RemoteRefresh, Invoke]"
    by simp_all
  from all pre(2) calls
  have "count_list (newEvents s (emit Invoke s2)) Invoke = 2"
    and "count_list (newEvents s (emit Invoke s2)) RefreshAccessToken
           = (if isTokenExpired (dateNow env (length (trace s) + 1)) s then 2 else 1)"
    by simp_all
  with run inner show ?thesis by blast
qed

theorem executeWithRetry_auth_retry_once_witness:
  "fst (executeWithRetry expiredOnceWorld DEFAULT_RETRY_CONFIG ''search tracks'' exchanged)
     = Inr ''result''
   \<and> count_list
       (newEvents exchanged
          (snd (executeWithRetry expiredOnceWorld DEFAULT_RETRY_CONFIG ''search tracks'' exchanged)))
       Invoke = 2
   \<and> count_list
       (newEvents exchanged
          (snd (executeWithRetry expiredOnceWorld DEFAULT_RETRY_CONFIG ''search tracks'' exchanged)))
       RefreshAccessToken = 1"
proof -
  have retries: "1 \<le> maxRetries DEFAULT_RETRY_CONFIG"
    by (simp add: DEFAULT_RETRY_CONFIG_def)
  have preflight: "ensureValidToken expiredOnceWorld exchanged
                     = (Inr ''access-1'', emit EnsureValidToken exchanged)"
    by code_simp
  have token: "hasRefreshToken exchanged"
    by code_simp
  have fresh: "\<not> isTokenExpired (dateNow expiredOnceWorld (length (trace exchanged) + 1)) exchanged"
    by code_simp
  have first: "operation expiredOnceWorld
                 (count_list (trace (emit EnsureValidToken exchanged)) Invoke)
               = Inl (failure 401 None)"
    and status: "statusOf (failure 401 None) = Some 401"
    and refresh: "remoteRefresh expiredOnceWorld
                    (count_list (trace (emit EnsureValidToken exchanged)) RemoteRefresh)
                  = Inr bareBody"
    and second: "operation expiredOnceWorld
                   (count_list (trace (emit EnsureValidToken exchanged)) Invoke + 1)
                 = Inr ''result''"
    by code_simp+
  from executeWithRetry_auth_retry_once[OF retries preflight token first status refresh second,
         of "''search tracks''"] fresh
  show ?thesis by auto
qed

text \<open>
  The specification's sentence fails in two ways. With \<open>maxRetries = 0\<close> the operation is invoked
  once and the run raises after the refresh. And with the default policy, a client built
  from a configured refresh token (whose token counts as expired at first use) enters
  \<open>refreshAccessToken\<close> twice during the run: in the pre-flight check and after the 401.
\<close>

theorem executeWithRetry_auth_retry_once_counterexample:
  "maxRetries singleAttemptPolicy = 0
   \<and> operation expiredOnceWorld 0 = Inl (failure 401 None)
   \<and> operation expiredOnceWorld 1 = Inr ''result''
   \<and> fst (executeWithRetry expiredOnceWorld singleAttemptPolicy ''search tracks'' exchanged)
     = Inl (SpotifyApiError ''Authentication failed. Please re-authorize the application.''
              (Some 401) (Some (failure 401 None)))
   \<and> trace (snd (executeWithRetry expiredOnceWorld singleAttemptPolicy ''search tracks''
                   exchanged))
     = [AuthorizationCodeGrant, EnsureValidToken, Invoke, RefreshAccessToken, RemoteRefresh]
   \<and> fst (executeWithRetry expiredOnceWorld DEFAULT_RETRY_CONFIG ''search tracks''
            (newSpotifyAuth configWithToken))
     = Inr ''result''
   \<and> trace (snd (executeWithRetry expiredOnceWorld DEFAULT_RETRY_CONFIG ''search tracks''
                   (newSpotifyAuth configWithToken)))
     = [EnsureValidToken, RefreshAccessToken, RemoteRefresh,
        Invoke, RefreshAccessToken, RemoteRefresh, Invoke]"
  by code_simp

section \<open>Backoff waits\<close>





end
